theory Spec2Isabelle
  imports Complex_Main "HOL-Library.Multiset"
begin

section \<open>MP3 Reduce Tool v0.3.0: a shallow embedding of reduce-v0.3.0.py\<close>

text \<open>
  The development follows \<^verbatim>\<open>src/mp3_reduce_tool/python/reduce-v0.3.0.py\<close>.
  Conventions of the embedding:
  \<^item> Python \<^verbatim>\<open>int\<close> is \<^typ>\<open>int\<close>; a Python \<^verbatim>\<open>float\<close> is the rational number it
    denotes, with exact arithmetic (\<^typ>\<open>rat\<close>): rounding error, infinities and NaN of
    IEEE-754 doubles are outside the model;
  \<^item> a \<^verbatim>\<open>str\<close> is a \<^typ>\<open>string\<close> of bytes (UTF-8); the only string tests of the
    program compare with ASCII text, which UTF-8 keeps byte for byte;
  \<^item> an exception is a value of type \<open>exn\<close>, and a function that can raise returns
    \<open>exn + 'a\<close> with \<open>Inl\<close> for the exception;
  \<^item> the file system is a map from paths to file attributes, passed explicitly;
  \<^item> the two external programs (ffprobe, ffmpeg), the JSON parser and the numeric
    parsers of the Python library are parameters, collected in the record \<open>world\<close>;
  \<^item> console output, the ffmpeg version banner and the progress spinner are cosmetic and
    left out; the log file is the list of the messages appended to it (without the time
    stamp prefix);
  \<^item> \<^verbatim>\<open>normalize_path\<close> only prepares the text of a path for the command line of an
    external program; the programs are modelled as functions of the path itself;
  \<^item> the worker processes of the pool are abstracted to the order in which their futures
    complete, and the file system changes in that order.
\<close>

subsection \<open>Exceptions\<close>

datatype exn =
    RuntimeError
  | OSError
  | FileNotFoundError
  | PermissionError
  | JSONDecodeError
  | TypeError
  | KeyError
  | AttributeError
  | ValueError
  | IndexError
  | ZeroDivisionError
  | BrokenProcessPool

definition then_do :: "exn + 'a \<Rightarrow> ('a \<Rightarrow> exn + 'b) \<Rightarrow> exn + 'b" where
  "then_do m f = (case m of Inl e \<Rightarrow> Inl e | Inr x \<Rightarrow> f x)"

subsection \<open>Strings\<close>

text \<open>\<^verbatim>\<open>str.lower\<close> on the ASCII letters. No character outside ASCII lowers to a
  character of \<^verbatim>\<open>_reduced\<close> or \<^verbatim>\<open>.mp3\<close>, the only texts compared after lowering.\<close>

definition lower_char :: "char \<Rightarrow> char" where
  "lower_char c =
     (case map_of (zip ''ABCDEFGHIJKLMNOPQRSTUVWXYZ'' ''abcdefghijklmnopqrstuvwxyz'') c of
        Some l \<Rightarrow> l
      | None \<Rightarrow> c)"

definition lower :: "string \<Rightarrow> string" where
  "lower s = map lower_char s"

text \<open>\<^verbatim>\<open>pat in s\<close> for strings: \<open>pat\<close> occurs in \<open>s\<close> as a contiguous substring.\<close>

fun is_substring :: "string \<Rightarrow> string \<Rightarrow> bool" where
  "is_substring pat [] = (pat = [])"
| "is_substring pat (c # cs) = (take (length pat) (c # cs) = pat \<or> is_substring pat cs)"

text \<open>\<^verbatim>\<open>str.strip(chars)\<close>: drop the characters of \<open>chars\<close> at both ends.\<close>

definition strip_chars :: "char list \<Rightarrow> string \<Rightarrow> string" where
  "strip_chars chars s =
     rev (dropWhile (\<lambda>c. c \<in> set chars) (rev (dropWhile (\<lambda>c. c \<in> set chars) s)))"

definition whitespace :: "char list" where
  "whitespace =
     [CHR 0x09, CHR 0x0A, CHR 0x0B, CHR 0x0C, CHR 0x0D, CHR 0x1C, CHR 0x1D, CHR 0x1E, CHR 0x1F,
      CHR '' '']"

definition strip :: "string \<Rightarrow> string" where
  "strip s = strip_chars whitespace s"

text \<open>\<^verbatim>\<open>str(n)\<close> for an integer.\<close>

definition digit_char :: "nat \<Rightarrow> char" where
  "digit_char d = ''0123456789'' ! d"

function dec :: "nat \<Rightarrow> string" where
  "dec n = (if n < 10 then [digit_char n] else dec (n div 10) @ [digit_char (n mod 10)])"
  by pat_completeness auto
termination
  by (relation "measure id") auto

declare dec.simps [simp del]

definition str_of_int :: "int \<Rightarrow> string" where
  "str_of_int i = (if i < 0 then CHR ''-'' # dec (nat (- i)) else dec (nat i))"

text \<open>The format \<^verbatim>\<open>{x:.2f}\<close>: the sign, the integer part, a point and two decimals, the
  value rounded to the nearest hundredth, a tie to the even one.\<close>

definition round_half_even :: "rat \<Rightarrow> int" where
  "round_half_even x =
     (let f = \<lfloor>x\<rfloor>; d = x - of_int f
      in if d < 1 / 2 then f else if 1 / 2 < d then f + 1 else if even f then f else f + 1)"

definition two_digits :: "nat \<Rightarrow> string" where
  "two_digits n = [digit_char (n div 10), digit_char (n mod 10)]"

definition fmt2 :: "rat \<Rightarrow> string" where
  "fmt2 x =
     (let h = nat (round_half_even (\<bar>x\<bar> * 100))
      in (if x < 0 then ''-'' else '''') @ dec (h div 100) @ ''.'' @ two_digits (h mod 100))"

text \<open>Python's \<^verbatim>\<open>int(x)\<close> of a float truncates towards zero.\<close>

definition int_of_float :: "rat \<Rightarrow> int" where
  "int_of_float x = (if 0 \<le> x then \<lfloor>x\<rfloor> else \<lceil>x\<rceil>)"

subsection \<open>Paths and the file system\<close>

text \<open>A \<^verbatim>\<open>pathlib.Path\<close>: the directory part and the final component. \<^verbatim>\<open>str(path)\<close> and
  \<^verbatim>\<open>Path(text)\<close> are inverse on the paths of a scan, so where the source passes the text of
  a path the model passes the path.\<close>

datatype path = Path (parent: string) (name: string)

definition with_name :: "path \<Rightarrow> string \<Rightarrow> path" where
  "with_name p n = Path (parent p) n"

text \<open>\<^verbatim>\<open>name.rfind('.')\<close>, and \<^verbatim>\<open>suffix\<close> and \<^verbatim>\<open>stem\<close> as pathlib defines them: the name is
  split at its last point when that point is neither its first nor its last character.\<close>

fun rfind :: "char \<Rightarrow> string \<Rightarrow> nat option" where
  "rfind c [] = None"
| "rfind c (x # xs) =
     (case rfind c xs of Some i \<Rightarrow> Some (Suc i) | None \<Rightarrow> if x = c then Some 0 else None)"

definition suffix :: "path \<Rightarrow> string" where
  "suffix p =
     (case rfind CHR ''.'' (name p) of
        Some i \<Rightarrow> if 0 < i \<and> Suc i < length (name p) then drop i (name p) else []
      | None \<Rightarrow> [])"

definition stem :: "path \<Rightarrow> string" where
  "stem p =
     (case rfind CHR ''.'' (name p) of
        Some i \<Rightarrow> if 0 < i \<and> Suc i < length (name p) then take i (name p) else name p
      | None \<Rightarrow> name p)"

text \<open>What \<^verbatim>\<open>stat\<close> reports of a file, and the read-only attribute, which on Windows makes
  \<^verbatim>\<open>unlink\<close> fail.\<close>

record file_stat =
  st_size :: int
  st_mtime :: rat
  read_only :: bool

type_synonym filesystem = "path \<Rightarrow> file_stat option"

definition path_exists :: "filesystem \<Rightarrow> path \<Rightarrow> bool" where
  "path_exists fs p = (fs p \<noteq> None)"

definition stat :: "filesystem \<Rightarrow> path \<Rightarrow> exn + file_stat" where
  "stat fs p = (case fs p of None \<Rightarrow> Inl FileNotFoundError | Some f \<Rightarrow> Inr f)"

definition unlink :: "filesystem \<Rightarrow> path \<Rightarrow> exn + filesystem" where
  "unlink fs p =
     (case fs p of
        None \<Rightarrow> Inl FileNotFoundError
      | Some f \<Rightarrow> if read_only f then Inl PermissionError else Inr (fs(p := None)))"

subsection \<open>Reduced file detection\<close>

definition reduced_name :: "path \<Rightarrow> path" where
  "reduced_name p = with_name p (stem p @ ''_reduced.mp3'')"

definition reduced_exists :: "filesystem \<Rightarrow> path \<Rightarrow> bool" where
  "reduced_exists fs p =
     (if lower (suffix p) \<noteq> ''.mp3'' then False else path_exists fs (reduced_name p))"

subsection \<open>External processes and the Python library\<close>

datatype completed = Completed (returncode: int) (stdout: string)

datatype json =
    JNull
  | JBool bool
  | JInt int
  | JFloat rat
  | JStr string
  | JList "json list"
  | JDict "(string \<times> json) list"

text \<open>\<open>ffprobe_run\<close> and \<open>ffmpeg_run\<close> are \<^verbatim>\<open>subprocess.run\<close> on the two command lines of the
  source (\<open>Inl\<close>: the process could not be launched); ffmpeg also changes the file system.
  \<open>json_loads\<close>, \<open>int_of_str\<close> and \<open>float_of_str\<close> are \<^verbatim>\<open>json.loads\<close>, \<^verbatim>\<open>int\<close> and \<^verbatim>\<open>float\<close>
  on a text, \<open>None\<close> where they raise.\<close>

record world =
  ffprobe_run :: "filesystem \<Rightarrow> path \<Rightarrow> exn + completed"
  ffmpeg_run :: "filesystem \<Rightarrow> path \<Rightarrow> path \<Rightarrow> (exn + completed) \<times> filesystem"
  json_loads :: "string \<Rightarrow> json option"
  int_of_str :: "string \<Rightarrow> int option"
  float_of_str :: "string \<Rightarrow> rat option"

subsection \<open>Python operations on parsed JSON\<close>

text \<open>\<^verbatim>\<open>key in v\<close>\<close>

fun py_in :: "string \<Rightarrow> json \<Rightarrow> exn + bool" where
  "py_in k (JDict kvs) = Inr (k \<in> fst ` set kvs)"
| "py_in k (JList xs) = Inr (JStr k \<in> set xs)"
| "py_in k (JStr s) = Inr (is_substring k s)"
| "py_in k _ = Inl TypeError"

text \<open>\<^verbatim>\<open>v[key]\<close> for a text key\<close>

fun py_getitem :: "json \<Rightarrow> string \<Rightarrow> exn + json" where
  "py_getitem (JDict kvs) k = (case map_of kvs k of None \<Rightarrow> Inl KeyError | Some v \<Rightarrow> Inr v)"
| "py_getitem _ k = Inl TypeError"

text \<open>the truth value of \<^verbatim>\<open>v\<close>\<close>

fun truthy :: "json \<Rightarrow> bool" where
  "truthy JNull = False"
| "truthy (JBool b) = b"
| "truthy (JInt n) = (n \<noteq> 0)"
| "truthy (JFloat x) = (x \<noteq> 0)"
| "truthy (JStr s) = (s \<noteq> [])"
| "truthy (JList xs) = (xs \<noteq> [])"
| "truthy (JDict kvs) = (kvs \<noteq> [])"

text \<open>\<^verbatim>\<open>v[0]\<close>\<close>

fun py_first :: "json \<Rightarrow> exn + json" where
  "py_first (JList []) = Inl IndexError"
| "py_first (JList (x # xs)) = Inr x"
| "py_first (JStr []) = Inl IndexError"
| "py_first (JStr (c # cs)) = Inr (JStr [c])"
| "py_first (JDict kvs) = Inl KeyError"
| "py_first _ = Inl TypeError"

text \<open>\<^verbatim>\<open>v.get(key)\<close>; Python's \<^verbatim>\<open>None\<close> is \<open>JNull\<close>\<close>

fun py_get :: "json \<Rightarrow> string \<Rightarrow> exn + json" where
  "py_get (JDict kvs) k = Inr (case map_of kvs k of None \<Rightarrow> JNull | Some v \<Rightarrow> v)"
| "py_get _ k = Inl AttributeError"

text \<open>\<^verbatim>\<open>int(v)\<close> and \<^verbatim>\<open>float(v)\<close>\<close>

fun py_int :: "world \<Rightarrow> json \<Rightarrow> exn + int" where
  "py_int w (JStr s) = (case int_of_str w s of None \<Rightarrow> Inl ValueError | Some n \<Rightarrow> Inr n)"
| "py_int w (JInt n) = Inr n"
| "py_int w (JBool b) = Inr (if b then 1 else 0)"
| "py_int w (JFloat x) = Inr (int_of_float x)"
| "py_int w _ = Inl TypeError"

fun py_float :: "world \<Rightarrow> json \<Rightarrow> exn + rat" where
  "py_float w (JStr s) = (case float_of_str w s of None \<Rightarrow> Inl ValueError | Some x \<Rightarrow> Inr x)"
| "py_float w (JInt n) = Inr (of_int n)"
| "py_float w (JBool b) = Inr (if b then 1 else 0)"
| "py_float w (JFloat x) = Inr x"
| "py_float w _ = Inl TypeError"

subsection \<open>ffprobe wrapper\<close>

datatype info = Info (info_bitrate: int) (info_duration: rat) (info_size: int)

text \<open>The two lookups in the parsed document: \<^verbatim>\<open>bitrate\<close> stays \<^verbatim>\<open>None\<close> unless
  \<^verbatim>\<open>"streams" in data and data["streams"]\<close>, and \<^verbatim>\<open>duration\<close> unless \<^verbatim>\<open>"format" in data\<close>.\<close>

definition bitrate_of :: "json \<Rightarrow> exn + json" where
  "bitrate_of data =
     then_do (py_in ''streams'' data) (\<lambda>has_streams.
       if \<not> has_streams then Inr JNull
       else then_do (py_getitem data ''streams'') (\<lambda>streams.
         if \<not> truthy streams then Inr JNull
         else then_do (py_first streams) (\<lambda>s0. py_get s0 ''bit_rate'')))"

definition duration_of :: "json \<Rightarrow> exn + json" where
  "duration_of data =
     then_do (py_in ''format'' data) (\<lambda>has_format.
       if \<not> has_format then Inr JNull
       else then_do (py_getitem data ''format'') (\<lambda>fmt. py_get fmt ''duration''))"

text \<open>The body of the \<^verbatim>\<open>try\<close> block: \<open>Inl\<close> is an exception raised inside it, \<open>Inr None\<close>
  one of its \<^verbatim>\<open>return None\<close>.\<close>

definition ffprobe_body :: "world \<Rightarrow> filesystem \<Rightarrow> path \<Rightarrow> exn + info option" where
  "ffprobe_body w fs p =
     then_do (ffprobe_run w fs p) (\<lambda>result.
       if strip (stdout result) = [] then Inr None
       else
         then_do (case json_loads w (stdout result) of
                    None \<Rightarrow> Inl JSONDecodeError | Some d \<Rightarrow> Inr d) (\<lambda>data.
         then_do (bitrate_of data) (\<lambda>bitrate.
         then_do (duration_of data) (\<lambda>duration.
         then_do (if bitrate \<noteq> JNull then map_sum id Some (py_int w bitrate)
                  else Inr None) (\<lambda>bitrate.
         then_do (if duration \<noteq> JNull then map_sum id Some (py_float w duration)
                  else Inr None) (\<lambda>duration.
         then_do (stat fs p) (\<lambda>st.
           case (bitrate, duration) of
             (Some b, Some d) \<Rightarrow> Inr (Some (Info b d (st_size st)))
           | _ \<Rightarrow> Inr None)))))))"

text \<open>\<^verbatim>\<open>except Exception: return None\<close>\<close>

definition ffprobe_audio_info :: "world \<Rightarrow> filesystem \<Rightarrow> path \<Rightarrow> info option" where
  "ffprobe_audio_info w fs p = (case ffprobe_body w fs p of Inl e \<Rightarrow> None | Inr r \<Rightarrow> r)"

subsection \<open>Report rows and the CSV writer\<close>

text \<open>A value of a row dictionary is a text or an integer.\<close>

datatype cell = Text string | Number int

record row =
  filename :: string
  bitrate :: cell
  size_bytes :: cell
  estimated_size_bytes :: cell
  savings_bytes :: cell
  savings_percent :: cell
  action :: string
  skip_reason :: string

definition columns :: "string list" where
  "columns =
     [''filename'', ''bitrate'', ''size_bytes'', ''estimated_size_bytes'', ''savings_bytes'',
      ''savings_percent'', ''action'', ''skip_reason'']"

text \<open>What \<^verbatim>\<open>csv.writer\<close> writes for a value is \<^verbatim>\<open>str(value)\<close>; a record of the CSV file is
  the list of its fields (quoting is the writer's own business).\<close>

definition cell_text :: "cell \<Rightarrow> string" where
  "cell_text c = (case c of Text s \<Rightarrow> s | Number n \<Rightarrow> str_of_int n)"

definition csv_record :: "row \<Rightarrow> string list" where
  "csv_record r =
     [filename r, cell_text (bitrate r), cell_text (size_bytes r),
      cell_text (estimated_size_bytes r), cell_text (savings_bytes r),
      cell_text (savings_percent r), action r, skip_reason r]"

text \<open>The report files of the working directory, by name: a CSV file is its records.\<close>

type_synonym reports = "string \<Rightarrow> string list list option"

definition write_csv :: "row list \<Rightarrow> string \<Rightarrow> reports \<Rightarrow> reports" where
  "write_csv rows p disk =
     (if rows = [] then disk else disk(p \<mapsto> columns # map csv_record rows))"

subsection \<open>The state of a run\<close>

record item =
  item_path :: path
  item_bitrate :: int
  item_duration :: rat
  item_size :: int
  item_estimated_size :: int
  item_savings_bytes :: int
  item_savings_percent :: rat
  item_ffmpeg_cmd :: string

record finfo =
  fi_bitrate :: int
  fi_size :: int
  fi_estimated_size :: int
  fi_savings_bytes :: int
  fi_savings_percent :: rat

record result =
  src :: path
  dst :: path
  res_savings_bytes :: int
  res_savings_percent :: rat
  success :: bool

record run_state =
  log_lines :: "string list"
  csv_rows :: "row list"
  reducible_files :: "item list"
  file_info :: "path \<Rightarrow> finfo option"
  total_estimated_savings :: int
  reduction_results :: "result list"
  counter :: nat
  files :: filesystem
  written :: reports

definition init_state :: "filesystem \<Rightarrow> run_state" where
  "init_state fs =
     \<lparr>log_lines = [], csv_rows = [], reducible_files = [], file_info = Map.empty,
      total_estimated_savings = 0, reduction_results = [], counter = 0, files = fs,
      written = Map.empty\<rparr>"

definition log_msg :: "string \<Rightarrow> run_state \<Rightarrow> run_state" where
  "log_msg msg st = st\<lparr>log_lines := log_lines st @ [msg]\<rparr>"

definition path_text :: "path \<Rightarrow> string" where
  "path_text p = parent p @ [CHR 0x5C] @ name p"

subsection \<open>Preview: the eligibility of one file\<close>

definition TARGET_BITRATE :: int where
  "TARGET_BITRATE = 128000"

definition MIN_SAVINGS_PERCENT :: int where
  "MIN_SAVINGS_PERCENT = 20"

text \<open>The seven \<^verbatim>\<open>SKIP\<close> branches log the reason, append a row and \<^verbatim>\<open>continue\<close>; they differ
  in the reason and in the bitrate and size cells.\<close>

definition skip_row :: "string \<Rightarrow> cell \<Rightarrow> cell \<Rightarrow> string \<Rightarrow> row" where
  "skip_row n b s reason =
     \<lparr>filename = n, bitrate = b, size_bytes = s, estimated_size_bytes = Text ''skip'',
      savings_bytes = Text ''skip'', savings_percent = Text ''skip'', action = ''SKIP'',
      skip_reason = reason\<rparr>"

definition skip :: "string \<Rightarrow> cell \<Rightarrow> cell \<Rightarrow> string \<Rightarrow> run_state \<Rightarrow> run_state" where
  "skip n b s reason st =
     (log_msg (''SKIP ('' @ reason @ ''): '' @ n) st)
       \<lparr>csv_rows := csv_rows st @ [skip_row n b s reason]\<rparr>"

definition estimated_size_of :: "rat \<Rightarrow> int" where
  "estimated_size_of duration = int_of_float ((of_int TARGET_BITRATE * duration) / 8)"

definition savings_bytes_of :: "int \<Rightarrow> rat \<Rightarrow> int" where
  "savings_bytes_of sz duration = sz - estimated_size_of duration"

text \<open>\<^verbatim>\<open>(savings_bytes / size) * 100\<close>, defined where the size is not zero.\<close>

definition savings_percent_of :: "int \<Rightarrow> rat \<Rightarrow> rat" where
  "savings_percent_of sz duration =
     (of_int (savings_bytes_of sz duration) / of_int sz) * 100"

definition pass_row :: "string \<Rightarrow> int \<Rightarrow> int \<Rightarrow> int \<Rightarrow> int \<Rightarrow> rat \<Rightarrow> row" where
  "pass_row n b s est sav pct =
     \<lparr>filename = n, bitrate = Number b, size_bytes = Number s,
      estimated_size_bytes = Number est, savings_bytes = Number sav,
      savings_percent = Text (fmt2 pct), action = ''PASS'', skip_reason = []\<rparr>"

definition pass :: "string \<Rightarrow> path \<Rightarrow> info \<Rightarrow> run_state \<Rightarrow> run_state" where
  "pass ffmpeg_cmd mp3 i st =
     (let b = info_bitrate i; d = info_duration i; s = info_size i;
          est = estimated_size_of d; sav = savings_bytes_of s d; pct = savings_percent_of s d
      in (log_msg (''PASS (reducible '' @ fmt2 pct @ ''%): '' @ name mp3) st)
           \<lparr>csv_rows := csv_rows st @ [pass_row (name mp3) b s est sav pct],
            reducible_files := reducible_files st @
              [\<lparr>item_path = mp3, item_bitrate = b, item_duration = d, item_size = s,
                item_estimated_size = est, item_savings_bytes = sav,
                item_savings_percent = pct, item_ffmpeg_cmd = ffmpeg_cmd\<rparr>],
            file_info := (file_info st)(mp3 \<mapsto>
              \<lparr>fi_bitrate = b, fi_size = s, fi_estimated_size = est, fi_savings_bytes = sav,
               fi_savings_percent = pct\<rparr>),
            total_estimated_savings := total_estimated_savings st + sav\<rparr>)"

text \<open>The body of the loop over \<^verbatim>\<open>music_dir.rglob("*.mp3")\<close>. \<^verbatim>\<open>mp3.stat()\<close> raises when the
  file is gone, and the division when the size is zero.\<close>

definition outside_window :: "filesystem \<Rightarrow> rat option \<Rightarrow> path \<Rightarrow> exn + bool" where
  "outside_window fs cutoff mp3 =
     (case cutoff of
        None \<Rightarrow> Inr False
      | Some c \<Rightarrow> then_do (stat fs mp3) (\<lambda>f. Inr (st_mtime f < c)))"

definition preview_file ::
    "world \<Rightarrow> rat option \<Rightarrow> string \<Rightarrow> path \<Rightarrow> run_state \<Rightarrow> exn + run_state" where
  "preview_file w cutoff ffmpeg_cmd mp3 st =
     (if reduced_exists (files st) mp3
      then Inr (skip (name mp3) (Text []) (Text []) ''_reduced version exists'' st)
      else then_do (outside_window (files st) cutoff mp3) (\<lambda>outside.
        if outside
        then Inr (skip (name mp3) (Text []) (Text []) ''outside time window'' st)
        else if is_substring ''_reduced'' (lower (name mp3))
        then Inr (skip (name mp3) (Text []) (Text []) ''already reduced'' st)
        else
          (case ffprobe_audio_info w (files st) mp3 of
             None \<Rightarrow> Inr (skip (name mp3) (Text []) (Text []) ''no metadata'' st)
           | Some i \<Rightarrow>
               if info_bitrate i \<le> TARGET_BITRATE
               then Inr (skip (name mp3) (Number (info_bitrate i)) (Number (info_size i))
                          ''already 128 kbps or lower'' st)
               else if savings_bytes_of (info_size i) (info_duration i) \<le> 0
               then Inr (skip (name mp3) (Number (info_bitrate i)) (Number (info_size i))
                          ''would not shrink'' st)
               else if info_size i = 0 then Inl ZeroDivisionError
               else if savings_percent_of (info_size i) (info_duration i)
                         < of_int MIN_SAVINGS_PERCENT
               then Inr (skip (name mp3) (Number (info_bitrate i)) (Number (info_size i))
                          (''below threshold (''
                             @ fmt2 (savings_percent_of (info_size i) (info_duration i))
                             @ ''%)'') st)
               else Inr (pass ffmpeg_cmd mp3 i st))))"

fun preview ::
    "world \<Rightarrow> rat option \<Rightarrow> string \<Rightarrow> path list \<Rightarrow> run_state \<Rightarrow> exn + run_state" where
  "preview w cutoff ffmpeg_cmd [] st = Inr st"
| "preview w cutoff ffmpeg_cmd (mp3 # rest) st =
     then_do (preview_file w cutoff ffmpeg_cmd mp3 st) (preview w cutoff ffmpeg_cmd rest)"

subsection \<open>Worker function\<close>

text \<open>\<^verbatim>\<open>subprocess.run\<close> raises when ffmpeg cannot be launched; the worker does not
  catch it. \<^verbatim>\<open>and\<close> evaluates \<^verbatim>\<open>dst.stat()\<close> only when the two tests before it hold.\<close>

definition reduce_worker :: "world \<Rightarrow> filesystem \<Rightarrow> item \<Rightarrow> (exn + result) \<times> filesystem" where
  "reduce_worker w fs it =
     (let s = item_path it;
          d = reduced_name s;
          (ran, fs') = ffmpeg_run w fs s d
      in (then_do ran (\<lambda>res.
            then_do (if returncode res = 0 \<and> path_exists fs' d
                     then then_do (stat fs' d) (\<lambda>f. Inr (0 < st_size f))
                     else Inr False) (\<lambda>ok.
            Inr \<lparr>src = s, dst = d, res_savings_bytes = item_savings_bytes it,
                 res_savings_percent = item_savings_percent it, success = ok\<rparr>)),
          fs'))"

subsection \<open>Safe deletion\<close>

definition arrow :: string where
  "arrow = [CHR 0xE2, CHR 0x86, CHR 0x92]"

text \<open>The body of the \<^verbatim>\<open>try\<close> block of \<^verbatim>\<open>verify_and_delete\<close>.\<close>

definition verify_body :: "world \<Rightarrow> path \<Rightarrow> path \<Rightarrow> run_state \<Rightarrow> exn + run_state" where
  "verify_body w original reduced st =
     (let fs = files st in
      if \<not> path_exists fs reduced
      then Inr (log_msg (''DELETE SKIP (no reduced file): '' @ path_text original) st)
      else then_do (stat fs reduced) (\<lambda>r.
        if st_size r \<le> 0
        then Inr (log_msg (''DELETE SKIP (reduced size 0): '' @ path_text original) st)
        else then_do (stat fs original) (\<lambda>orig.
          if st_size r \<ge> st_size orig
          then Inr (log_msg (''DELETE SKIP (reduced not smaller): '' @ path_text original) st)
          else if st_mtime r \<le> st_mtime orig
          then Inr (log_msg (''DELETE SKIP (reduced not newer): '' @ path_text original) st)
          else
            (case ffprobe_audio_info w fs reduced of
               None \<Rightarrow>
                 Inr (log_msg (''DELETE SKIP (reduced failed ffprobe): '' @ path_text original) st)
             | Some i \<Rightarrow>
                 then_do (unlink fs original) (\<lambda>fs'.
                   Inr (log_msg (''DELETE: '' @ path_text original @ '' '' @ arrow @ '' removed'')
                         (st\<lparr>files := fs'\<rparr>)))))))"

text \<open>\<^verbatim>\<open>except Exception as e\<close>: the error is logged (the model leaves the text of the
  exception out of the line).\<close>

definition verify_and_delete :: "world \<Rightarrow> path \<Rightarrow> path \<Rightarrow> run_state \<Rightarrow> run_state" where
  "verify_and_delete w original reduced st =
     (case verify_body w original reduced st of
        Inl e \<Rightarrow> log_msg (''DELETE ERROR ('' @ path_text original @ '')'') st
      | Inr st' \<Rightarrow> st')"

subsection \<open>The environment of a run\<close>

text \<open>Everything \<^verbatim>\<open>main\<close> reads from outside: \<^verbatim>\<open>shutil.which\<close>, the command line, the
  lines typed at the prompts (each prompt is reached at most once in a run), the clock,
  the directory listing, and the process pool: \<open>pool_broken\<close> holds for a task whose worker
  process dies (its future then raises \<^verbatim>\<open>BrokenProcessPool\<close>), and \<open>as_completed\<close> is the
  order in which the futures complete.\<close>

record env =
  which :: "string \<Rightarrow> string option"
  args_dir :: "string option"
  args_minutes :: "int option"
  args_auto :: bool
  args_nocsv :: bool
  getcwd :: string
  input_dir :: string
  input_minutes :: string
  input_proceed :: string
  input_delete :: string
  input_export :: string
  time_now :: rat
  timestamp_str :: string
  dir_exists :: "string \<Rightarrow> bool"
  rglob :: "string \<Rightarrow> path list"
  pool_broken :: "path \<Rightarrow> bool"
  as_completed :: "item list \<Rightarrow> item list"
  tools :: world

subsection \<open>ffmpeg/ffprobe detection\<close>

definition falsy :: "string option \<Rightarrow> bool" where
  "falsy v = (case v of None \<Rightarrow> True | Some s \<Rightarrow> s = [])"

definition detect_ffmpeg_windows_only :: "env \<Rightarrow> exn + string \<times> string" where
  "detect_ffmpeg_windows_only e =
     (let ffmpeg = which e ''ffmpeg''; ffprobe = which e ''ffprobe''
      in if falsy ffmpeg \<or> falsy ffprobe then Inl RuntimeError
         else Inr (the ffmpeg, the ffprobe))"

subsection \<open>Directory input normalization\<close>

definition normalize_directory_input :: "string \<Rightarrow> string" where
  "normalize_directory_input raw = map (\<lambda>c. if c = CHR 0x5C then CHR ''/'' else c) (strip raw)"

subsection \<open>Parallel reduction\<close>

text \<open>The result of one future: the worker's return value, the exception the worker
  raised, or \<^verbatim>\<open>BrokenProcessPool\<close>.\<close>

definition future_result :: "env \<Rightarrow> filesystem \<Rightarrow> item \<Rightarrow> (exn + result) \<times> filesystem" where
  "future_result e fs it =
     (if pool_broken e (item_path it) then (Inl BrokenProcessPool, fs)
      else reduce_worker (tools e) fs it)"

text \<open>The body of the loop over the completed futures, after \<^verbatim>\<open>future.result()\<close>.\<close>

definition reduce_row :: "run_state \<Rightarrow> result \<Rightarrow> row" where
  "reduce_row st r =
     (case file_info st (src r) of
        Some i \<Rightarrow>
          \<lparr>filename = name (src r), bitrate = Number (fi_bitrate i),
           size_bytes = Number (fi_size i),
           estimated_size_bytes = Number (fi_estimated_size i),
           savings_bytes = Number (fi_savings_bytes i),
           savings_percent = Text (fmt2 (fi_savings_percent i)), action = ''REDUCE'',
           skip_reason = []\<rparr>
      | None \<Rightarrow>
          \<lparr>filename = name (src r), bitrate = Text [], size_bytes = Text [],
           estimated_size_bytes = Text [],
           savings_bytes = Number (res_savings_bytes r),
           savings_percent = Text (fmt2 (res_savings_percent r)), action = ''REDUCE'',
           skip_reason = []\<rparr>)"

definition record_result :: "result \<Rightarrow> run_state \<Rightarrow> run_state" where
  "record_result r st =
     (log_msg (''REDUCE ('' @ fmt2 (res_savings_percent r) @ ''%): '' @ path_text (src r)
                @ '' '' @ arrow @ '' '' @ path_text (dst r) @ '' (success=''
                @ (if success r then ''True'' else ''False'') @ '')'') st)
       \<lparr>reduction_results := reduction_results st @ [r],
        counter := counter st + 1,
        csv_rows := csv_rows st @ [reduce_row st r]\<rparr>"

text \<open>The loop: an exception of \<^verbatim>\<open>future.result()\<close> is not caught and leaves \<^verbatim>\<open>main\<close>.\<close>

fun collect :: "env \<Rightarrow> item list \<Rightarrow> run_state \<Rightarrow> exn + run_state" where
  "collect e [] st = Inr st"
| "collect e (it # rest) st =
     (case future_result e (files st) it of
        (Inl err, fs') \<Rightarrow> Inl err
      | (Inr r, fs') \<Rightarrow> collect e rest (record_result r (st\<lparr>files := fs'\<rparr>)))"

definition reduce_all :: "env \<Rightarrow> run_state \<Rightarrow> exn + run_state" where
  "reduce_all e st = collect e (as_completed e (reducible_files st)) st"

subsection \<open>Deletion of the originals\<close>

fun delete_originals :: "world \<Rightarrow> result list \<Rightarrow> run_state \<Rightarrow> run_state" where
  "delete_originals w [] st = st"
| "delete_originals w (r # rs) st =
     delete_originals w rs
       (if \<not> success r
        then log_msg (''DELETE SKIP (reduction failed): '' @ path_text (src r)) st
        else if \<not> path_exists (files st) (src r)
        then log_msg (''DELETE SKIP (original missing): '' @ path_text (src r)) st
        else verify_and_delete w (src r) (dst r) st)"

subsection \<open>CSV export decision\<close>

definition export_csv :: "env \<Rightarrow> bool" where
  "export_csv e =
     (if \<not> args_nocsv e
      then (if \<not> args_auto e then lower (strip (input_export e)) \<noteq> ''n'' else True)
      else False)"

definition csv_name :: "env \<Rightarrow> string" where
  "csv_name e = ''reduce_report_'' @ timestamp_str e @ ''.csv''"

definition finish_csv :: "env \<Rightarrow> run_state \<Rightarrow> run_state" where
  "finish_csv e st =
     (if export_csv e
      then st\<lparr>written := write_csv (csv_rows st) (csv_name e) (written st)\<rparr>
      else st)"

subsection \<open>Main program\<close>

datatype exit =
    EnvironmentError
  | DirectoryNotFound
  | NothingToReduce
  | Aborted
  | Finished

definition raw_dir :: "env \<Rightarrow> string" where
  "raw_dir e =
     (if \<not> falsy (args_dir e) then strip_chars [CHR 0x22] (the (args_dir e))
      else if args_auto e then getcwd e
      else strip_chars [CHR 0x22] (input_dir e))"

definition minutes :: "env \<Rightarrow> int" where
  "minutes e =
     (case args_minutes e of
        Some m \<Rightarrow> m
      | None \<Rightarrow>
          if args_auto e then 0
          else (case int_of_str (tools e) (input_minutes e) of Some m \<Rightarrow> m | None \<Rightarrow> 0))"

definition cutoff :: "env \<Rightarrow> rat option" where
  "cutoff e = (if minutes e > 0 then Some (time_now e - of_int (minutes e * 60)) else None)"

definition main :: "env \<Rightarrow> filesystem \<Rightarrow> exn + exit \<times> run_state" where
  "main e fs =
     (case detect_ffmpeg_windows_only e of
        Inl err \<Rightarrow> Inr (EnvironmentError, init_state fs)
      | Inr (ffmpeg_cmd, ffprobe_cmd) \<Rightarrow>
          let normalized_dir = normalize_directory_input (raw_dir e) in
          if \<not> dir_exists e normalized_dir then Inr (DirectoryNotFound, init_state fs)
          else
            then_do (preview (tools e) (cutoff e) ffmpeg_cmd (rglob e normalized_dir)
                      (init_state fs)) (\<lambda>st.
              if reducible_files st = []
              then Inr (NothingToReduce,
                        finish_csv e (log_msg ''SUMMARY: No reducible files.'' st))
              else if (if args_auto e then ''y'' else lower (strip (input_proceed e))) \<noteq> ''y''
              then Inr (Aborted,
                        finish_csv e (log_msg ''SUMMARY: Reduction aborted by user.'' st))
              else
                then_do (reduce_all e st) (\<lambda>st.
                  let st = log_msg (''SUMMARY: Reduced '' @ dec (counter st)
                                     @ '' files successfully.'') st;
                      st = (if (if args_auto e then ''y'' else lower (strip (input_delete e)))
                               = ''y''
                            then delete_originals (tools e) (reduction_results st) st
                            else log_msg ''SUMMARY: User chose not to delete originals.'' st)
                  in Inr (Finished, finish_csv e st))))"

subsection \<open>The five predicates of safe deletion, as the specification lists them\<close>

text \<open>The specification permits the deletion of an original only if the derived file
  exists, its size is greater than 0 and less than the original's, its modification time
  is later than the original's, and probing it again succeeds. This predicate follows
  those words, to be compared with \<open>verify_and_delete\<close>.\<close>

definition deletion_permitted :: "world \<Rightarrow> filesystem \<Rightarrow> path \<Rightarrow> path \<Rightarrow> bool" where
  "deletion_permitted w fs original reduced =
     (case (fs reduced, fs original) of
        (Some r, Some orig) \<Rightarrow>
          0 < st_size r \<and> st_size r < st_size orig \<and> st_mtime orig < st_mtime r \<and>
          ffprobe_audio_info w fs reduced \<noteq> None
      | _ \<Rightarrow> False)"

subsection \<open>The shape of a report row\<close>





subsection \<open>Concrete worlds, file systems and environments\<close>

text \<open>A world in which ffprobe reports the bit rate \<open>b\<close> and the duration \<open>d\<close> for every
  file, and ffmpeg exits with 0 after writing a file of \<open>n\<close> bytes, newer than any other.\<close>

definition probe_json :: json where
  "probe_json =
     JDict [(''streams'', JList [JDict [(''bit_rate'', JStr ''b'')]]),
            (''format'', JDict [(''duration'', JStr ''d'')])]"

definition fixed_world :: "int \<Rightarrow> rat \<Rightarrow> int \<Rightarrow> world" where
  "fixed_world b d n =
     \<lparr>ffprobe_run = (\<lambda>fs p. Inr (Completed 0 ''{}'')),
      ffmpeg_run = (\<lambda>fs s t.
        (Inr (Completed 0 []), fs(t \<mapsto> \<lparr>st_size = n, st_mtime = 2000, read_only = False\<rparr>))),
      json_loads = (\<lambda>s. Some probe_json),
      int_of_str = (\<lambda>s. Some b),
      float_of_str = (\<lambda>s. Some d)\<rparr>"

text \<open>A world whose ffmpeg exits with 0 and writes nothing.\<close>

definition idle_world :: world where
  "idle_world = (fixed_world 320000 180 0)\<lparr>ffmpeg_run := (\<lambda>fs s t. (Inr (Completed 0 []), fs))\<rparr>"

text \<open>A world whose ffprobe cannot be launched.\<close>

definition blind_world :: world where
  "blind_world = (fixed_world 320000 180 0)\<lparr>ffprobe_run := (\<lambda>fs p. Inl FileNotFoundError)\<rparr>"

definition song :: path where
  "song = Path ''music'' ''song.mp3''"

definition song_reduced :: path where
  "song_reduced = Path ''music'' ''song_reduced.mp3''"

definition mix :: path where
  "mix = Path ''music'' ''mix_REDUCED_v2.mp3''"

definition plain_file :: "int \<Rightarrow> rat \<Rightarrow> file_stat" where
  "plain_file n t = \<lparr>st_size = n, st_mtime = t, read_only = False\<rparr>"

definition one_song :: "int \<Rightarrow> filesystem" where
  "one_song n = [song \<mapsto> plain_file n 1000]"

text \<open>An unattended run (\<^verbatim>\<open>--auto --dir music\<close>) that finds the files \<open>ps\<close>.\<close>

definition auto_env :: "world \<Rightarrow> path list \<Rightarrow> env" where
  "auto_env w ps =
     \<lparr>which = (\<lambda>n. Some (''C:/ffmpeg/bin/'' @ n @ ''.exe'')),
      args_dir = Some ''music'', args_minutes = None, args_auto = True, args_nocsv = False,
      getcwd = ''C:/work'', input_dir = [], input_minutes = [], input_proceed = [],
      input_delete = [], input_export = [], time_now = 5000,
      timestamp_str = ''2026-01-01_00-00-00'',
      dir_exists = (\<lambda>d. d = ''music''), rglob = (\<lambda>d. ps), pool_broken = (\<lambda>p. False),
      as_completed = rev, tools = w\<rparr>"

definition song_item :: item where
  "song_item =
     \<lparr>item_path = song, item_bitrate = 320000, item_duration = 180, item_size = 5000000,
      item_estimated_size = 2880000, item_savings_bytes = 2120000,
      item_savings_percent = 212 / 5, item_ffmpeg_cmd = ''ffmpeg''\<rparr>"

text \<open>The original of 5000000 bytes, written at time 1000, beside a reduced file of \<open>n\<close>
  bytes written at time \<open>t\<close>.\<close>

definition pair_fs :: "int \<Rightarrow> rat \<Rightarrow> filesystem" where
  "pair_fs n t = [song \<mapsto> plain_file 5000000 1000, song_reduced \<mapsto> plain_file n t]"

text \<open>The file of the marker example, alone and beside a reduced sibling of its own.\<close>

definition mix_sibling :: path where
  "mix_sibling = Path ''music'' ''mix_REDUCED_v2_reduced.mp3''"

definition mix_fs :: filesystem where
  "mix_fs = [mix \<mapsto> plain_file 5000000 1000, mix_sibling \<mapsto> plain_file 2880000 2000]"

definition one_mix :: filesystem where
  "one_mix = [mix \<mapsto> plain_file 5000000 1000]"





text \<open>The unattended run with a process pool whose workers die, with a target directory
  that does not exist, and with no ffprobe on the path.\<close>

definition broken_env :: "world \<Rightarrow> path list \<Rightarrow> env" where
  "broken_env w ps = (auto_env w ps)\<lparr>pool_broken := (\<lambda>p. True)\<rparr>"



text \<open>The state before the reduction of one task.\<close>

definition task_state :: run_state where
  "task_state = (init_state (one_song 5000000))\<lparr>reducible_files := [song_item]\<rparr>"

section \<open>Properties\<close>

subsection \<open>Auxiliary facts\<close>

lemma then_do_Inr [simp]: "then_do (Inr x) f = f x"
  by (simp add: then_do_def)

lemma then_do_Inl [simp]: "then_do (Inl e) f = Inl e"
  by (simp add: then_do_def)

lemma auto_env_detect:
  "detect_ffmpeg_windows_only (auto_env w ps)
     = Inr (''C:/ffmpeg/bin/ffmpeg.exe'', ''C:/ffmpeg/bin/ffprobe.exe'')"
  by (simp add: detect_ffmpeg_windows_only_def auto_env_def falsy_def)

lemma auto_env_dir: "normalize_directory_input (raw_dir (auto_env w ps)) = ''music''"
  by (simp add: normalize_directory_input_def raw_dir_def auto_env_def falsy_def
      strip_def strip_chars_def whitespace_def)

lemma auto_env_export: "export_csv (auto_env w ps)"
  by (simp add: export_csv_def auto_env_def)

subsection \<open>The CSV writer on an empty report\<close>

text \<open>
  Claim C9. With no report row the CSV writer returns the report files unchanged: it
  creates no file, not even one holding the header. A run whose scan finds no file has no
  row, ends at "Nothing to reduce" and leaves no CSV report, whatever the export choice.
\<close>

theorem empty_rows_write_no_csv:
  assumes "detect_ffmpeg_windows_only e = Inr (fc, pc)"
    and "dir_exists e (normalize_directory_input (raw_dir e))"
    and "rglob e (normalize_directory_input (raw_dir e)) = []"
  shows "write_csv [] p disk = disk \<and>
         (\<exists>st. main e fs = Inr (NothingToReduce, st) \<and> csv_rows st = [] \<and>
               written st = Map.empty)"
  using assms
  by (simp add: write_csv_def main_def finish_csv_def log_msg_def init_state_def)

text \<open>An unattended run over an empty directory, with the export chosen.\<close>

theorem empty_rows_write_no_csv_witness:
  "export_csv (auto_env idle_world []) \<and>
   write_csv [] (csv_name (auto_env idle_world [])) Map.empty = Map.empty \<and>
   (\<exists>st. main (auto_env idle_world []) (one_song 5000000) = Inr (NothingToReduce, st) \<and>
         csv_rows st = [] \<and> written st = Map.empty)"
proof -
  have x: "dir_exists (auto_env idle_world []) ''music''"
    by (simp add: auto_env_def)
  have l: "rglob (auto_env idle_world []) ''music'' = []"
    by (simp add: auto_env_def)
  from empty_rows_write_no_csv [OF auto_env_detect, of idle_world "[]"
      "csv_name (auto_env idle_world [])" Map.empty "one_song 5000000"]
    auto_env_dir [of idle_world "[]"] x l auto_env_export [of idle_world "[]"]
  show ?thesis by simp
qed

subsection \<open>Facts about the concrete worlds\<close>

lemma song_neq: "song \<noteq> song_reduced"
  by (simp add: song_def song_reduced_def)

lemma reduced_name_song: "reduced_name song = song_reduced"
  by (simp add: reduced_name_def song_def song_reduced_def with_name_def stem_def)

lemma probe_fixed_world:
  "fs p = Some f \<Longrightarrow> ffprobe_audio_info (fixed_world b d n) fs p = Some (Info b d (st_size f))"
  by (simp add: ffprobe_audio_info_def ffprobe_body_def bitrate_of_def duration_of_def
      fixed_world_def probe_json_def strip_def strip_chars_def whitespace_def stat_def)

lemma probe_idle_world:
  "fs p = Some f \<Longrightarrow> ffprobe_audio_info idle_world fs p = Some (Info 320000 180 (st_size f))"
  by (simp add: ffprobe_audio_info_def ffprobe_body_def bitrate_of_def duration_of_def
      idle_world_def fixed_world_def probe_json_def strip_def strip_chars_def whitespace_def
      stat_def)

lemma probe_blind_world: "ffprobe_audio_info blind_world fs p = None"
  by (simp add: ffprobe_audio_info_def ffprobe_body_def blind_world_def fixed_world_def)

subsection \<open>The worker's success flag\<close>

text \<open>
  Claim C5. When ffmpeg has run for a task, the worker returns a result whose \<open>success\<close>
  is true if and only if the exit code is 0 and the derived file exists and its size is
  greater than 0. An exit code of 0 alone is not enough: the witness has runs with exit
  code 0 and a missing or an empty derived file, and \<open>success\<close> is false there.
\<close>

theorem worker_success_iff:
  assumes "ffmpeg_run w fs (item_path it) (reduced_name (item_path it)) = (Inr res, fs')"
  shows "\<exists>r. reduce_worker w fs it = (Inr r, fs') \<and>
            src r = item_path it \<and> dst r = reduced_name (item_path it) \<and>
            (success r \<longleftrightarrow>
               returncode res = 0 \<and>
               (\<exists>f. fs' (reduced_name (item_path it)) = Some f \<and> 0 < st_size f))"
  using assms
  by (cases "fs' (reduced_name (item_path it))")
    (simp_all add: reduce_worker_def Let_def path_exists_def stat_def)

text \<open>Exit code 0 with no derived file, with an empty one, and with one of 2880000 bytes.\<close>

theorem worker_success_iff_witness:
  "(\<exists>r. reduce_worker idle_world (one_song 5000000) song_item = (Inr r, one_song 5000000) \<and>
        \<not> success r) \<and>
   (\<exists>r fs'. reduce_worker (fixed_world 320000 180 0) (one_song 5000000) song_item = (Inr r, fs') \<and>
        \<not> success r) \<and>
   (\<exists>r fs'. reduce_worker (fixed_world 320000 180 2880000) (one_song 5000000) song_item
          = (Inr r, fs') \<and> success r)"
proof -
  have a: "ffmpeg_run idle_world (one_song 5000000) (item_path song_item)
             (reduced_name (item_path song_item)) = (Inr (Completed 0 []), one_song 5000000)"
    by (simp add: idle_world_def fixed_world_def)
  have b: "ffmpeg_run (fixed_world 320000 180 n) (one_song 5000000) (item_path song_item)
             (reduced_name (item_path song_item))
           = (Inr (Completed 0 []), (one_song 5000000)(song_reduced \<mapsto> plain_file n 2000))" for n
    by (simp add: fixed_world_def song_item_def reduced_name_song plain_file_def)
  have c: "one_song 5000000 (reduced_name (item_path song_item)) = None"
    by (simp add: song_item_def reduced_name_song) (simp add: one_song_def song_def song_reduced_def)
  have d: "reduced_name (item_path song_item) = song_reduced"
    by (simp add: song_item_def reduced_name_song)
  from worker_success_iff [OF a] c have 1: "\<exists>r. reduce_worker idle_world (one_song 5000000) song_item = (Inr r, one_song 5000000) \<and>
        \<not> success r"
    by auto
  from worker_success_iff [OF b [of 0]] d have 2: "\<exists>r fs'. reduce_worker (fixed_world 320000 180 0) (one_song 5000000) song_item = (Inr r, fs') \<and>
        \<not> success r"
    by (auto simp: plain_file_def)
  from worker_success_iff [OF b [of 2880000]] d have 3: "\<exists>r fs'. reduce_worker (fixed_world 320000 180 2880000) (one_song 5000000) song_item
          = (Inr r, fs') \<and> success r"
    by (auto simp: plain_file_def)
  from 1 2 3 show ?thesis by blast
qed

subsection \<open>Safe deletion\<close>

lemma verify_body_cases:
  "verify_body w original reduced st =
     (case files st reduced of
        None \<Rightarrow> Inr (log_msg (''DELETE SKIP (no reduced file): '' @ path_text original) st)
      | Some r \<Rightarrow>
          if st_size r \<le> 0
          then Inr (log_msg (''DELETE SKIP (reduced size 0): '' @ path_text original) st)
          else (case files st original of
                  None \<Rightarrow> Inl FileNotFoundError
                | Some orig \<Rightarrow>
                    if st_size orig \<le> st_size r
                    then Inr (log_msg (''DELETE SKIP (reduced not smaller): ''
                                        @ path_text original) st)
                    else if st_mtime r \<le> st_mtime orig
                    then Inr (log_msg (''DELETE SKIP (reduced not newer): ''
                                        @ path_text original) st)
                    else if ffprobe_audio_info w (files st) reduced = None
                    then Inr (log_msg (''DELETE SKIP (reduced failed ffprobe): ''
                                        @ path_text original) st)
                    else if read_only orig then Inl PermissionError
                    else Inr (log_msg (''DELETE: '' @ path_text original @ '' '' @ arrow
                                        @ '' removed'')
                               (st\<lparr>files := (files st)(original := None)\<rparr>))))"
  by (auto simp: verify_body_def Let_def path_exists_def stat_def unlink_def
      split: option.splits)

lemma files_log_msg [simp]: "files (log_msg m st) = files st"
  by (simp add: log_msg_def)

text \<open>
  Claim C2. \<open>verify_and_delete\<close> checks the five predicates in their order and stops at
  the first that fails, logging the reason of that one: no reduced file; reduced size 0;
  reduced not smaller (equal sizes refuse the deletion); reduced not newer; reduced failed
  ffprobe. When the five predicates do not all hold the file system is left as it was, so
  the original is removed only if all five hold; and when they hold and the original is
  not read-only, the original is removed and nothing else changes.
\<close>

theorem safe_delete_chain:
  fixes w original reduced st
  defines "st' \<equiv> verify_and_delete w original reduced st"
  defines "fs \<equiv> files st"
  shows
    "(fs reduced = None \<longrightarrow>
        st' = log_msg (''DELETE SKIP (no reduced file): '' @ path_text original) st) \<and>
     (\<forall>r. fs reduced = Some r \<and> st_size r \<le> 0 \<longrightarrow>
        st' = log_msg (''DELETE SKIP (reduced size 0): '' @ path_text original) st) \<and>
     (\<forall>r orig. fs reduced = Some r \<and> 0 < st_size r \<and> fs original = Some orig \<and>
          st_size orig \<le> st_size r \<longrightarrow>
        st' = log_msg (''DELETE SKIP (reduced not smaller): '' @ path_text original) st) \<and>
     (\<forall>r orig. fs reduced = Some r \<and> 0 < st_size r \<and> fs original = Some orig \<and>
          st_size r < st_size orig \<and> st_mtime r \<le> st_mtime orig \<longrightarrow>
        st' = log_msg (''DELETE SKIP (reduced not newer): '' @ path_text original) st) \<and>
     (\<forall>r orig. fs reduced = Some r \<and> 0 < st_size r \<and> fs original = Some orig \<and>
          st_size r < st_size orig \<and> st_mtime orig < st_mtime r \<and>
          ffprobe_audio_info w fs reduced = None \<longrightarrow>
        st' = log_msg (''DELETE SKIP (reduced failed ffprobe): '' @ path_text original) st) \<and>
     (\<not> deletion_permitted w fs original reduced \<longrightarrow> files st' = fs) \<and>
     (files st' original \<noteq> fs original \<longrightarrow> deletion_permitted w fs original reduced) \<and>
     (\<forall>orig. deletion_permitted w fs original reduced \<and> fs original = Some orig \<and>
          \<not> read_only orig \<longrightarrow>
        files st' = fs(original := None))"
  unfolding st'_def fs_def verify_and_delete_def verify_body_cases deletion_permitted_def
  by (auto split: option.splits)

text \<open>One run of the verifier for each predicate failing first (equal sizes among them),
  and one where all five hold and the original is removed.\<close>

theorem safe_delete_chain_witness:
  "files (verify_and_delete idle_world song song_reduced (init_state (one_song 5000000)))
     = one_song 5000000 \<and>
   files (verify_and_delete idle_world song song_reduced (init_state (pair_fs 0 2000)))
     = pair_fs 0 2000 \<and>
   verify_and_delete idle_world song song_reduced (init_state (pair_fs 5000000 2000))
     = log_msg (''DELETE SKIP (reduced not smaller): '' @ path_text song)
         (init_state (pair_fs 5000000 2000)) \<and>
   files (verify_and_delete idle_world song song_reduced (init_state (pair_fs 2880000 1000)))
     = pair_fs 2880000 1000 \<and>
   files (verify_and_delete blind_world song song_reduced (init_state (pair_fs 2880000 2000)))
     = pair_fs 2880000 2000 \<and>
   files (verify_and_delete idle_world song song_reduced (init_state (pair_fs 2880000 2000)))
     = (pair_fs 2880000 2000)(song := None)"
proof -
  have f [simp]: "files (init_state x) = x" for x
    by (simp add: init_state_def)
  have p [simp]: "pair_fs n t song = Some (plain_file 5000000 1000)"
    "pair_fs n t song_reduced = Some (plain_file n t)" for n t
    using song_neq by (simp_all add: pair_fs_def)
  have o [simp]: "one_song n song_reduced = None" for n
    using song_neq by (simp add: one_song_def)
  have i [simp]: "ffprobe_audio_info idle_world (pair_fs n t) song_reduced \<noteq> None" for n t
    using probe_idle_world [of "pair_fs n t" song_reduced "plain_file n t"] by simp
  have 1: "files (verify_and_delete idle_world song song_reduced
                   (init_state (one_song 5000000))) = one_song 5000000"
    using safe_delete_chain [where st = "init_state (one_song 5000000)" and w = idle_world and original = song
        and reduced = song_reduced] by simp
  have 2: "files (verify_and_delete idle_world song song_reduced
                   (init_state (pair_fs 0 2000))) = pair_fs 0 2000"
    using safe_delete_chain [where st = "init_state (pair_fs 0 2000)" and w = idle_world and original = song
        and reduced = song_reduced] by (simp add: plain_file_def)
  have 3: "verify_and_delete idle_world song song_reduced (init_state (pair_fs 5000000 2000))
     = log_msg (''DELETE SKIP (reduced not smaller): '' @ path_text song)
         (init_state (pair_fs 5000000 2000))"
    using safe_delete_chain [where st = "init_state (pair_fs 5000000 2000)" and w = idle_world and original = song
        and reduced = song_reduced] by (simp add: plain_file_def)
  have 4: "files (verify_and_delete idle_world song song_reduced
                   (init_state (pair_fs 2880000 1000))) = pair_fs 2880000 1000"
    using safe_delete_chain [where st = "init_state (pair_fs 2880000 1000)" and w = idle_world and original = song
        and reduced = song_reduced] by (simp add: plain_file_def)
  have 5: "files (verify_and_delete blind_world song song_reduced
                   (init_state (pair_fs 2880000 2000))) = pair_fs 2880000 2000"
    using safe_delete_chain [where st = "init_state (pair_fs 2880000 2000)" and w = blind_world and original = song
        and reduced = song_reduced]
    by (simp add: plain_file_def probe_blind_world)
  have 6: "files (verify_and_delete idle_world song song_reduced
                   (init_state (pair_fs 2880000 2000))) = (pair_fs 2880000 2000)(song := None)"
    using safe_delete_chain [where st = "init_state (pair_fs 2880000 2000)" and w = idle_world and original = song
        and reduced = song_reduced]
    by (simp add: plain_file_def deletion_permitted_def)
  from 1 2 3 4 5 6 show ?thesis by blast
qed

subsection \<open>Savings arithmetic\<close>


lemma outside_window_exists:
  "fs mp3 = Some f \<Longrightarrow>
   outside_window fs c mp3 = Inr (case c of None \<Rightarrow> False | Some t \<Rightarrow> st_mtime f < t)"
  by (simp add: outside_window_def stat_def split: option.splits)


lemma song_facts:
  "\<not> reduced_exists (one_song n) song"
  "outside_window (one_song n) None song = Inr False"
  "\<not> is_substring ''_reduced'' (lower (name song))"
  "name song = ''song.mp3''"
proof -
  show "\<not> reduced_exists (one_song n) song"
    using song_neq by (simp add: reduced_exists_def reduced_name_song path_exists_def one_song_def)
  show "outside_window (one_song n) None song = Inr False"
    by (simp add: outside_window_def)
  show "\<not> is_substring ''_reduced'' (lower (name song))"
    by (simp add: song_def lower_def lower_char_def)
  show "name song = ''song.mp3''"
    by (simp add: song_def)
qed

lemma files_init [simp]: "files (init_state fs) = fs"
  by (simp add: init_state_def)



subsection \<open>The decision order of the eligibility rules\<close>

text \<open>For a name that ends in \<open>.mp3\<close> after a stem that is not empty, as the files of
  the scan are named, \<open>reduced_exists\<close> says that the derived sibling exists.\<close>

lemma reduced_exists_sibling:
  "lower (suffix p) = ''.mp3'' \<Longrightarrow>
   reduced_exists fs p \<longleftrightarrow> fs (with_name p (stem p @ ''_reduced.mp3'')) \<noteq> None"
  by (simp add: reduced_exists_def reduced_name_def path_exists_def)



subsection \<open>The marker rule\<close>

lemma mix_marker: "is_substring ''_reduced'' (lower (name mix))"
  by (simp add: mix_def lower_def lower_char_def)

lemma reduced_name_mix: "reduced_name mix = mix_sibling"
  by (simp add: reduced_name_def mix_def mix_sibling_def with_name_def stem_def)

lemma suffix_mix: "lower (suffix mix) = ''.mp3''"
  by (simp add: suffix_def mix_def lower_def lower_char_def)

text \<open>
  Claim C10 as stated fails: the file \<open>mix_REDUCED_v2.mp3\<close> carries the marker, and beside
  a reduced sibling of its own it is classified by rule 1, with the reason
  "_reduced version exists", not "already reduced".
\<close>

theorem marker_rule_counterexample:
  "is_substring ''_reduced'' (lower (name mix)) \<and>
   preview_file (fixed_world 320000 180 0) None ''ffmpeg'' mix (init_state mix_fs)
     = Inr (skip ''mix_REDUCED_v2.mp3'' (Text []) (Text []) ''_reduced version exists''
             (init_state mix_fs)) \<and>
   skip_reason (last (csv_rows (skip ''mix_REDUCED_v2.mp3'' (Text []) (Text [])
      ''_reduced version exists'' (init_state mix_fs)))) \<noteq> ''already reduced''"
proof -
  have "reduced_exists (files (init_state mix_fs)) mix"
    by (simp add: reduced_exists_def suffix_mix reduced_name_mix path_exists_def mix_fs_def)
  then show ?thesis
    by (simp add: mix_marker preview_file_def skip_def skip_row_def log_msg_def)
      (simp add: mix_def)
qed

text \<open>
  Claim C10, amended. The marker test is a substring test on the lowered name. A scanned
  file whose name contains \<open>_reduced\<close> in any case and at any place is always a SKIP and
  never becomes a task, whatever the probe would report (it is not probed); its reason is
  "already reduced" unless rule 1 (a reduced sibling exists) or rule 2 (outside the time
  window) matched first.
\<close>

theorem marker_rule_never_eligible:
  assumes "is_substring ''_reduced'' (lower (name mp3))"
    and "files st mp3 = Some f"
  shows "\<exists>st' r.
      preview_file w c cmd mp3 st = Inr st' \<and> csv_rows st' = csv_rows st @ [r] \<and>
      action r = ''SKIP'' \<and> reducible_files st' = reducible_files st \<and>
      skip_reason r =
        (if reduced_exists (files st) mp3 then ''_reduced version exists''
         else if (case c of None \<Rightarrow> False | Some t \<Rightarrow> st_mtime f < t)
         then ''outside time window''
         else ''already reduced'')"
proof -
  have ow: "outside_window (files st) c mp3
              = Inr (case c of None \<Rightarrow> False | Some t \<Rightarrow> st_mtime f < t)"
    using assms(2) by (rule outside_window_exists)
  show ?thesis
    using assms(1)
    by (simp add: preview_file_def ow skip_def skip_row_def log_msg_def)
qed

text \<open>The example of the claim, alone in its directory, under a world that would report
  320000 bits per second.\<close>

theorem marker_rule_never_eligible_witness:
  "is_substring ''_reduced'' (lower (name mix)) \<and>
   (\<exists>st' r. preview_file (fixed_world 320000 180 0) None ''ffmpeg'' mix (init_state one_mix)
              = Inr st' \<and>
           csv_rows st' = [r] \<and> action r = ''SKIP'' \<and> reducible_files st' = [] \<and>
           skip_reason r = ''already reduced'')"
proof -
  have f: "files (init_state one_mix) mix = Some (plain_file 5000000 1000)"
    by (simp add: one_mix_def)
  have n: "\<not> reduced_exists (files (init_state one_mix)) mix"
    by (simp add: reduced_exists_def suffix_mix reduced_name_mix path_exists_def one_mix_def)
      (simp add: mix_def mix_sibling_def)
  from marker_rule_never_eligible [OF mix_marker f, of "fixed_world 320000 180 0" None "''ffmpeg''"]
    n mix_marker
  show ?thesis by (simp add: init_state_def)
qed

subsection \<open>The probe adapter fails closed\<close>


lemma py_in_dict: "py_in k (JDict kv) = Inr (map_of kv k \<noteq> None)"
  by (simp add: map_of_eq_None_iff)









subsection \<open>The cells of the report rows\<close>









lemma skip_fields [simp]:
  "csv_rows (skip n b s reason st) = csv_rows st @ [skip_row n b s reason]"
  "reducible_files (skip n b s reason st) = reducible_files st"
  "files (skip n b s reason st) = files st"
  "written (skip n b s reason st) = written st"
  by (simp_all add: skip_def log_msg_def)

lemma pass_fields [simp]:
  "csv_rows (pass cmd mp3 i st)
     = csv_rows st @ [pass_row (name mp3) (info_bitrate i) (info_size i)
         (estimated_size_of (info_duration i))
         (savings_bytes_of (info_size i) (info_duration i))
         (savings_percent_of (info_size i) (info_duration i))]"
  "files (pass cmd mp3 i st) = files st"
  "written (pass cmd mp3 i st) = written st"
  by (simp_all add: pass_def Let_def log_msg_def)



lemma record_result_fields [simp]:
  "csv_rows (record_result r st) = csv_rows st @ [reduce_row st r]"
  "reduction_results (record_result r st) = reduction_results st @ [r]"
  "files (record_result r st) = files st"
  "written (record_result r st) = written st"
  by (simp_all add: record_result_def log_msg_def)

lemma reduce_row_files [simp]: "reduce_row (st\<lparr>files := fs'\<rparr>) r = reduce_row st r"
  by (simp add: reduce_row_def)



lemma log_msg_fields [simp]:
  "csv_rows (log_msg m st) = csv_rows st"
  "written (log_msg m st) = written st"
  "reduction_results (log_msg m st) = reduction_results st"
  by (simp_all add: log_msg_def)

lemma verify_and_delete_rows [simp]:
  "csv_rows (verify_and_delete w original reduced st) = csv_rows st"
  "written (verify_and_delete w original reduced st) = written st"
  by (simp_all add: verify_and_delete_def verify_body_cases split: option.splits)

lemma delete_originals_rows [simp]:
  "csv_rows (delete_originals w rs st) = csv_rows st"
  "written (delete_originals w rs st) = written st"
  by (induction rs arbitrary: st) simp_all

lemma finish_csv_rows [simp]: "csv_rows (finish_csv e st) = csv_rows st"
  by (simp add: finish_csv_def)


lemma init_state_fields [simp]:
  "csv_rows (init_state fs) = []" "written (init_state fs) = Map.empty"
  "reducible_files (init_state fs) = []" "reduction_results (init_state fs) = []"
  by (simp_all add: init_state_def)





lemma song_marker: "\<not> is_substring ''_reduced'' (lower ''song.mp3'')"
  by (simp add: lower_def lower_char_def)









subsection \<open>The results of the parallel reduction\<close>

lemma future_result_ok:
  assumes "\<not> pool_broken e (item_path it)"
    and "\<forall>fs s d. \<exists>res fs'. ffmpeg_run (tools e) fs s d = (Inr res, fs')"
  shows "\<exists>r fs'. future_result e fs it = (Inr r, fs') \<and> src r = item_path it"
proof -
  from assms(2) obtain res fs' where
    "ffmpeg_run (tools e) fs (item_path it) (reduced_name (item_path it)) = (Inr res, fs')"
    by blast
  then show ?thesis
    using assms(1)
    by (cases "fs' (reduced_name (item_path it))")
      (simp_all add: future_result_def reduce_worker_def Let_def path_exists_def stat_def)
qed

lemma collect_all_return:
  assumes "\<forall>it \<in> set xs. \<not> pool_broken e (item_path it)"
    and "\<forall>fs s d. \<exists>res fs'. ffmpeg_run (tools e) fs s d = (Inr res, fs')"
  shows "\<exists>st' rs. collect e xs st = Inr st' \<and>
           reduction_results st' = reduction_results st @ rs \<and>
           map src rs = map item_path xs \<and>
           length (csv_rows st') = length (csv_rows st) + length xs \<and>
           counter st' = counter st + length xs"
  using assms(1)
proof (induction xs arbitrary: st)
  case Nil
  then show ?case by simp
next
  case (Cons it rest)
  from Cons.prems have nb: "\<not> pool_broken e (item_path it)" by simp
  from future_result_ok [OF nb assms(2)] obtain r fs' where
    f: "future_result e (files st) it = (Inr r, fs')" and s: "src r = item_path it"
    by blast
  let ?st1 = "record_result r (st\<lparr>files := fs'\<rparr>)"
  from Cons.prems have "\<forall>it \<in> set rest. \<not> pool_broken e (item_path it)" by simp
  from Cons.IH [OF this, of ?st1] obtain st' rs where
    c: "collect e rest ?st1 = Inr st'"
    and r: "reduction_results st' = reduction_results ?st1 @ rs"
    and m: "map src rs = map item_path rest"
    and l: "length (csv_rows st') = length (csv_rows ?st1) + length rest"
    and n: "counter st' = counter ?st1 + length rest"
    by blast
  have "collect e (it # rest) st = Inr st'" using f c by simp
  moreover have "reduction_results st' = reduction_results st @ (r # rs)"
    using r by simp
  moreover have "map src (r # rs) = map item_path (it # rest)" using s m by simp
  moreover have "length (csv_rows st') = length (csv_rows st) + length (it # rest)"
    using l by simp
  moreover have "counter st' = counter st + length (it # rest)"
    using n by (simp add: record_result_def log_msg_def)
  ultimately show ?case by blast
qed

lemma collect_broken:
  assumes "it \<in> set xs" and "pool_broken e (item_path it)"
  shows "\<exists>err. collect e xs st = Inl err"
  using assms(1)
proof (induction xs arbitrary: st)
  case Nil
  then show ?case by simp
next
  case (Cons x rest)
  obtain out fs' where f: "future_result e (files st) x = (out, fs')"
    by (cases "future_result e (files st) x")
  show ?case
  proof (cases out)
    case (Inl err)
    with f show ?thesis by simp
  next
    case (Inr r)
    with f assms(2) have "x \<noteq> it" by (auto simp: future_result_def)
    with Cons.prems have "it \<in> set rest" by simp
    from Cons.IH [OF this] f Inr show ?thesis by simp
  qed
qed

lemma preview_song_pass:
  "preview (fixed_world 320000 180 n) None cmd [song] (init_state (one_song 5000000))
     = Inr (pass cmd song (Info 320000 180 5000000) (init_state (one_song 5000000)))"
proof -
  have p: "ffprobe_audio_info (fixed_world 320000 180 n) (one_song 5000000) song
             = Some (Info 320000 180 5000000)"
    using probe_fixed_world [of "one_song 5000000" song "plain_file 5000000 1000" 320000 180 n]
    by (simp add: one_song_def plain_file_def)
  have e: "estimated_size_of 180 = 2880000"
    by (simp add: estimated_size_of_def int_of_float_def TARGET_BITRATE_def)
  show ?thesis
    by (simp add: preview_file_def song_facts(1,2,4) song_marker p
        TARGET_BITRATE_def MIN_SAVINGS_PERCENT_def savings_bytes_of_def
        savings_percent_of_def e)
qed

lemma main_reduce_raises:
  assumes "detect_ffmpeg_windows_only e = Inr (fc, pc)"
    and "dir_exists e (normalize_directory_input (raw_dir e))"
    and "preview (tools e) (cutoff e) fc (rglob e (normalize_directory_input (raw_dir e)))
           (init_state fs) = Inr st"
    and "reducible_files st \<noteq> []"
    and "args_auto e"
    and "reduce_all e st = Inl err"
  shows "main e fs = Inl err"
  using assms by (simp add: main_def)

text \<open>
  Claim C3 as stated fails: when the worker process of a task dies, \<^verbatim>\<open>future.result()\<close>
  raises \<^verbatim>\<open>BrokenProcessPool\<close>, nothing catches it, and the exception leaves \<open>main\<close>: no
  result with \<open>success = False\<close> is recorded, the run aborts.
\<close>

theorem crashed_worker_counterexample:
  "main (broken_env (fixed_world 320000 180 2880000) [song]) (one_song 5000000)
     = Inl BrokenProcessPool"
proof -
  let ?w = "fixed_world 320000 180 2880000"
  let ?e = "broken_env ?w [song]"
  let ?st = "pass ''C:/ffmpeg/bin/ffmpeg.exe'' song (Info 320000 180 5000000)
               (init_state (one_song 5000000))"
  have d: "detect_ffmpeg_windows_only ?e
             = Inr (''C:/ffmpeg/bin/ffmpeg.exe'', ''C:/ffmpeg/bin/ffprobe.exe'')"
    by (simp add: detect_ffmpeg_windows_only_def broken_env_def auto_env_def falsy_def)
  have n: "normalize_directory_input (raw_dir ?e) = ''music''"
    by (simp add: normalize_directory_input_def raw_dir_def broken_env_def auto_env_def
        falsy_def strip_def strip_chars_def whitespace_def)
  have c: "cutoff ?e = None" "tools ?e = ?w" "rglob ?e ''music'' = [song]"
    "dir_exists ?e ''music''" "args_auto ?e"
    by (simp_all add: cutoff_def minutes_def broken_env_def auto_env_def)
  have r: "reducible_files ?st \<noteq> []"
    by (simp add: pass_def Let_def log_msg_def)
  show ?thesis
  proof (rule main_reduce_raises [OF d _ _ r c(5)])
    show "dir_exists ?e (normalize_directory_input (raw_dir ?e))"
      by (simp add: n c)
    show "preview (tools ?e) (cutoff ?e) ''C:/ffmpeg/bin/ffmpeg.exe''
            (rglob ?e (normalize_directory_input (raw_dir ?e))) (init_state (one_song 5000000))
          = Inr ?st"
      unfolding n c(1-3) by (rule preview_song_pass)
    show "reduce_all ?e ?st = Inl BrokenProcessPool"
      by (simp add: reduce_all_def broken_env_def auto_env_def pass_def Let_def log_msg_def
          future_result_def)
  qed
qed

text \<open>
  Claim C3, amended. The futures complete in some order, a permutation of the submitted
  tasks. When every future returns (no worker process dies and ffmpeg can be launched),
  the coordinator appends exactly one result per task, whatever the exit codes and the
  success flags: as many results as tasks, for the same source paths. When the worker
  process of a task dies, the coordinator returns no list: an exception leaves it.
\<close>

theorem one_result_per_returning_task:
  assumes "mset (as_completed e (reducible_files st)) = mset (reducible_files st)"
  shows "((\<forall>it \<in> set (reducible_files st). \<not> pool_broken e (item_path it)) \<and>
          (\<forall>fs s d. \<exists>res fs'. ffmpeg_run (tools e) fs s d = (Inr res, fs')) \<longrightarrow>
            (\<exists>st' rs. reduce_all e st = Inr st' \<and>
               reduction_results st' = reduction_results st @ rs \<and>
               length rs = length (reducible_files st) \<and>
               mset (map src rs) = mset (map item_path (reducible_files st)))) \<and>
         ((\<exists>it \<in> set (reducible_files st). pool_broken e (item_path it)) \<longrightarrow>
            (\<exists>err. reduce_all e st = Inl err))"
proof (intro conjI impI)
  let ?xs = "as_completed e (reducible_files st)"
  have sets: "set ?xs = set (reducible_files st)"
    using assms by (rule mset_eq_setD)
  {
    assume a: "(\<forall>it \<in> set (reducible_files st). \<not> pool_broken e (item_path it)) \<and>
          (\<forall>fs s d. \<exists>res fs'. ffmpeg_run (tools e) fs s d = (Inr res, fs'))"
    then have "\<forall>it \<in> set ?xs. \<not> pool_broken e (item_path it)" using sets by simp
    from collect_all_return [OF this, of st] a obtain st' rs where
      c: "collect e ?xs st = Inr st'"
      and r: "reduction_results st' = reduction_results st @ rs"
      and m: "map src rs = map item_path ?xs"
      by blast
    from m have "length rs = length ?xs" by (metis length_map)
    also have "\<dots> = length (reducible_files st)"
      using assms by (rule mset_eq_length)
    finally have len: "length rs = length (reducible_files st)" .
    have "mset (map src rs) = mset (map item_path ?xs)" using m by simp
    also have "\<dots> = mset (map item_path (reducible_files st))"
      using assms by (metis mset_map)
    finally have "mset (map src rs) = mset (map item_path (reducible_files st))" .
    with c r len show "\<exists>st' rs. reduce_all e st = Inr st' \<and>
               reduction_results st' = reduction_results st @ rs \<and>
               length rs = length (reducible_files st) \<and>
               mset (map src rs) = mset (map item_path (reducible_files st))"
      unfolding reduce_all_def by blast
  }
  {
    assume "\<exists>it \<in> set (reducible_files st). pool_broken e (item_path it)"
    then obtain it where "it \<in> set ?xs" "pool_broken e (item_path it)"
      using sets by blast
    from collect_broken [OF this] show "\<exists>err. reduce_all e st = Inl err"
      unfolding reduce_all_def .
  }
qed


text \<open>One task whose ffmpeg writes nothing (one result all the same), and the same task
  on a broken pool.\<close>

theorem one_result_per_returning_task_witness:
  "(\<exists>st' rs. reduce_all (auto_env idle_world [song]) task_state = Inr st' \<and>
       reduction_results st' = rs \<and> length rs = 1 \<and> mset (map src rs) = {#song#}) \<and>
   (\<exists>err. reduce_all (broken_env idle_world [song]) task_state = Inl err)"
proof -
  have t [simp]: "reducible_files task_state = [song_item]" "reduction_results task_state = []"
    by (simp_all add: task_state_def)
  have i [simp]: "item_path song_item = song"
    by (simp add: song_item_def)
  have a: "mset (as_completed (auto_env idle_world [song]) (reducible_files task_state))
             = mset (reducible_files task_state)"
    by (simp add: auto_env_def)
  have b: "mset (as_completed (broken_env idle_world [song]) (reducible_files task_state))
             = mset (reducible_files task_state)"
    by (simp add: broken_env_def auto_env_def)
  have l: "\<forall>fs s d. \<exists>res fs'.
             ffmpeg_run (tools (auto_env idle_world [song])) fs s d = (Inr res, fs')"
    by (simp add: auto_env_def idle_world_def)
  have nb: "\<forall>it \<in> set (reducible_files task_state).
              \<not> pool_broken (auto_env idle_world [song]) (item_path it)"
    by (simp add: auto_env_def)
  have br: "\<exists>it \<in> set (reducible_files task_state).
              pool_broken (broken_env idle_world [song]) (item_path it)"
    by (simp add: broken_env_def)
  from one_result_per_returning_task [OF a] nb l
  have 1: "\<exists>st' rs. reduce_all (auto_env idle_world [song]) task_state = Inr st' \<and>
       reduction_results st' = rs \<and> length rs = 1 \<and> mset (map src rs) = {#song#}"
    by simp
  from one_result_per_returning_task [OF b] br
  have 2: "\<exists>err. reduce_all (broken_env idle_world [song]) task_state = Inl err"
    by blast
  from 1 2 show ?thesis by blast
qed

subsection \<open>What ends a run\<close>







end
